theory Spec2Isabelle
  imports Main
begin

section \<open>flask\_slack: the command registry, dispatch, validation and the response builder\<close>

text \<open>
  A shallow embedding of \<^verbatim>\<open>src/flask_slack/slack.py\<close> (class \<^verbatim>\<open>Slack\<close>).

  Python strings are lists of characters with code points below 256. A value that is
  either a string or \<^verbatim>\<open>None\<close> (a request parameter read with \<^verbatim>\<open>.get\<close>, the registered
  token, a command name) is a \<open>string option\<close>, with \<open>None\<close> for Python's \<^verbatim>\<open>None\<close>.
\<close>

subsection \<open>Python values and the store of list objects\<close>

text \<open>
  Lists are mutable objects with an identity, so a list value is a reference into a store
  of list objects. The store is the sequence of the list objects allocated so far; the
  address of an object is its position, and a new object is put at the end.
\<close>

type_synonym addr = nat

datatype pyval =
    PyNone
  | PyInt int
  | PyStr string
  | PyList addr
  | PyDict "(string \<times> pyval) list"

type_synonym heap = "pyval list list"

text \<open>The list display \<^verbatim>\<open>[]\<close>: a new empty list object.\<close>

definition new_list :: "heap \<Rightarrow> addr \<times> heap" where
  "new_list h = (length h, h @ [[]])"

text \<open>Reading a key of a dict value (\<^verbatim>\<open>d.get(k)\<close>).\<close>

fun py_get :: "pyval \<Rightarrow> string \<Rightarrow> pyval option" where
  "py_get (PyDict kvs) k = map_of kvs k"
| "py_get _ k = None"

subsection \<open>String operations\<close>

text \<open>
  \<^verbatim>\<open>str.isspace\<close> on one character: the white space characters of Unicode below 256 are
  U+0009 to U+000D, U+001C to U+001F, U+0020, U+0085 and U+00A0.
\<close>

definition isspace :: "char \<Rightarrow> bool" where
  "isspace c = (c \<in> set [CHR 0x09, CHR 0x0A, CHR 0x0B, CHR 0x0C, CHR 0x0D,
                         CHR 0x1C, CHR 0x1D, CHR 0x1E, CHR 0x1F, CHR 0x20,
                         CHR 0x85, CHR 0xA0])"

text \<open>\<^verbatim>\<open>s.strip()\<close>: leading and trailing white space removed.\<close>

definition strip :: "string \<Rightarrow> string" where
  "strip s = rev (dropWhile isspace (rev (dropWhile isspace s)))"

text \<open>\<^verbatim>\<open>s.lstrip(chars)\<close>: every leading character that occurs in \<^verbatim>\<open>chars\<close> removed.\<close>

definition lstrip :: "string \<Rightarrow> string \<Rightarrow> string" where
  "lstrip chars s = dropWhile (\<lambda>c. c \<in> set chars) s"

text \<open>\<^verbatim>\<open>'{}'.format(x)\<close> for a string or \<^verbatim>\<open>None\<close>.\<close>

fun py_format :: "string option \<Rightarrow> string" where
  "py_format None = ''None''"
| "py_format (Some s) = s"

text \<open>Truth value of a string or \<^verbatim>\<open>None\<close>: \<^verbatim>\<open>None\<close> and the empty string are false.\<close>

fun truthy :: "string option \<Rightarrow> bool" where
  "truthy None = False"
| "truthy (Some s) = (s \<noteq> [])"

text \<open>\<^verbatim>\<open>a or b\<close>: the first operand when it is true, the second otherwise.\<close>

definition py_or :: "string option \<Rightarrow> string option \<Rightarrow> string option" where
  "py_or a b = (if truthy a then a else b)"

subsection \<open>Exceptions\<close>

text \<open>
  Modelled from the spec: the exception class \<^verbatim>\<open>SlackError\<close> of
  \<^verbatim>\<open>flask_slack/exceptions.py\<close>, which is not among the sources. It is the single
  family of command validation errors and carries only a message, read as \<^verbatim>\<open>e.msg\<close>.
\<close>

datatype SlackError = SlackError (msg: string)

text \<open>
  What leaves \<^verbatim>\<open>dispatch\<close> as an exception: the \<^verbatim>\<open>KeyError\<close> of a registry lookup,
  or whatever the handler raised.
\<close>

datatype exn = KeyError "string option" | HandlerError string

subsection \<open>The registry and the request\<close>

text \<open>
  The keyword arguments of a handler call. The handler receives its own copy
  (\<^verbatim>\<open>func(**kwargs)\<close>), so it cannot change the mapping it was called with; what it can
  change is the store.
\<close>

type_synonym kwargs = "string \<rightharpoonup> pyval"

type_synonym handler = "kwargs \<Rightarrow> heap \<Rightarrow> (exn + pyval) \<times> heap"

text \<open>The tuple \<^verbatim>\<open>(func, token, methods, kwargs)\<close> held in \<^verbatim>\<open>self._commands\<close>.\<close>

type_synonym registration = "handler \<times> string option \<times> string list \<times> kwargs"

text \<open>
  The object \<^verbatim>\<open>self\<close>; the field \<open>commands\<close> is \<^verbatim>\<open>self._commands\<close>. Every call of
  \<^verbatim>\<open>command\<close> makes a new \<^verbatim>\<open>kwargs\<close> dict, so two keys never share one, and the dict
  is held by value, under its key.
\<close>

record slack =
  commands :: "string option \<rightharpoonup> registration"

text \<open>
  What \<^verbatim>\<open>dispatch\<close> reads of flask's \<^verbatim>\<open>request\<close>: the method (\<^verbatim>\<open>request.method\<close>, here
  \<open>req_method\<close>), and the query and form
  parameters, each with the first value of every key (what \<^verbatim>\<open>.get\<close> and \<^verbatim>\<open>.to_dict()\<close>
  return).
\<close>

record request =
  req_method :: string
  args :: "string \<rightharpoonup> string"
  form :: "string \<rightharpoonup> string"

text \<open>\<^verbatim>\<open>Slack()\<close>: an empty registry.\<close>

definition init :: slack where
  "init = \<lparr>commands = Map.empty\<rparr>"

text \<open>
  \<^verbatim>\<open>self.command(command, token, methods, **kwargs)(func)\<close>: the decorator stores the
  tuple under the command and returns the function as it is. The defaults of the source
  are \<^verbatim>\<open>token=None\<close> and \<^verbatim>\<open>methods=['GET']\<close>.
\<close>

definition command ::
  "slack \<Rightarrow> string option \<Rightarrow> string option \<Rightarrow> string list \<Rightarrow> kwargs \<Rightarrow> handler \<Rightarrow> handler \<times> slack" where
  "command self cmd token methods kwargs func =
     (func, self\<lparr>commands := (commands self)(cmd \<mapsto> (func, token, methods, kwargs))\<rparr>)"

subsection \<open>validate\<close>

text \<open>
  \<^verbatim>\<open>validate\<close> raises \<^verbatim>\<open>SlackError\<close> (\<open>Inl\<close>) or returns nothing (\<open>Inr ()\<close>). The
  membership test and the lookup that follows it are one \<open>case\<close>.
\<close>

definition validate :: "slack \<Rightarrow> string option \<Rightarrow> string option \<Rightarrow> string \<Rightarrow> SlackError + unit" where
  "validate self cmd token meth =
     (case commands self cmd of
        None \<Rightarrow> Inl (SlackError (''Command '' @ py_format cmd @ '' is not found''))
      | Some (func, token', methods, kwargs) \<Rightarrow>
          if meth \<notin> set methods then
            Inl (SlackError (meth @ '' request is not allowed''))
          else if truthy token' \<and> token \<noteq> token' then
            Inl (SlackError (''Your token '' @ py_format token @ '' is invalid''))
          else Inr ())"

subsection \<open>response\<close>

text \<open>
  \<^verbatim>\<open>response(text, response_type, attachments)\<close> builds the dict \<^verbatim>\<open>data\<close> and hands it to
  flask's \<^verbatim>\<open>jsonify\<close>, which is outside the sources: the result stands for the mapping
  handed over. With \<^verbatim>\<open>attachments\<close> being \<^verbatim>\<open>None\<close> a new empty list is made.
\<close>

definition response :: "pyval \<Rightarrow> pyval \<Rightarrow> pyval \<Rightarrow> heap \<Rightarrow> pyval \<times> heap" where
  "response text response_type attachments h =
     (case (if attachments = PyNone
            then (case new_list h of (a, h') \<Rightarrow> (PyList a, h'))
            else (attachments, h)) of
        (attachments', h') \<Rightarrow>
          (PyDict [(''response_type'', response_type),
                   (''text'', text),
                   (''attachments'', attachments')], h'))"

subsection \<open>dispatch\<close>

text \<open>Lines 53 to 55: the local \<^verbatim>\<open>data\<close>, the parameters \<^verbatim>\<open>dispatch\<close> reads.\<close>

definition dispatch_data :: "request \<Rightarrow> (string \<rightharpoonup> string)" where
  "dispatch_data req = (if req_method req = ''POST'' then form req else args req)"

text \<open>Lines 58 to 61: the local \<^verbatim>\<open>command\<close> when \<^verbatim>\<open>validate\<close> is called.\<close>

definition dispatch_command :: "(string \<rightharpoonup> string) \<Rightarrow> string option" where
  "dispatch_command data =
     (case py_or (data ''command'') (data ''trigger_word'') of
        Some s \<Rightarrow> Some (lstrip ''/'' (strip s))
      | None \<Rightarrow> None)"

text \<open>\<^verbatim>\<open>data.to_dict()\<close> as keyword arguments: every value is a string.\<close>

definition to_dict :: "(string \<rightharpoonup> string) \<Rightarrow> kwargs" where
  "to_dict data = (\<lambda>k. map_option PyStr (data k))"

text \<open>
  \<^verbatim>\<open>dispatch\<close> returns the value returned, or the exception raised, with the object
  \<^verbatim>\<open>self\<close> and the store as it leaves them. \<^verbatim>\<open>kwargs.update\<close> works on the dict of the
  registered tuple itself, so the registry holds the updated dict afterwards.
\<close>

definition dispatch :: "slack \<Rightarrow> request \<Rightarrow> heap \<Rightarrow> (exn + pyval) \<times> slack \<times> heap" where
  "dispatch self req h =
     (let meth = req_method req;
          data = dispatch_data req;
          token = data ''token'';
          cmd = dispatch_command data
      in case validate self cmd token meth of
           Inl e \<Rightarrow>
             (case response (PyStr (msg e)) (PyStr ''ephemeral'') PyNone h of
                (r, h') \<Rightarrow> (Inr r, self, h'))
         | Inr _ \<Rightarrow>
             (case commands self cmd of
                None \<Rightarrow> (Inl (KeyError cmd), self, h)
              | Some (func, token', methods, kwargs) \<Rightarrow>
                  let kwargs' = kwargs ++ to_dict data;
                      self' = self\<lparr>commands :=
                                (commands self)(cmd \<mapsto> (func, token', methods, kwargs'))\<rparr>
                  in (case func kwargs' h of (r, h') \<Rightarrow> (r, self', h'))))"

subsection \<open>The handler of the docstring, and the spec's reading of the slash\<close>

text \<open>
  The handler that the docstring of \<^verbatim>\<open>command\<close> registers:
  \<^verbatim>\<open>def your_method(**kwargs): text = kwargs.get('text'); return slack.response(text)\<close>.
\<close>

definition your_method :: handler where
  "your_method kwargs h =
     (case response (case kwargs ''text'' of None \<Rightarrow> PyNone | Some v \<Rightarrow> v)
             (PyStr ''ephemeral'') PyNone h of
        (r, h') \<Rightarrow> (Inr r, h'))"

text \<open>
  From the words of the specification, not from the source: "strip at most one leading
  \<^verbatim>\<open>/\<close> character". It is compared below with what \<^verbatim>\<open>lstrip('/')\<close> does.
\<close>

definition spec_strip_one_slash :: "string \<Rightarrow> string" where
  "spec_strip_one_slash s =
     (case s of [] \<Rightarrow> [] | c # r \<Rightarrow> if c = CHR ''/'' then r else s)"

section \<open>Properties of validate\<close>

text \<open>
  C3. \<^verbatim>\<open>validate\<close> checks in a fixed order: the command is not registered, then the
  method is not among the registration's methods, then the registered token is set and
  differs from the supplied one. The first check that fails gives the one error, with
  the message \<^verbatim>\<open>Command {command} is not found\<close>, \<^verbatim>\<open>{method} request is not allowed\<close> or
  \<^verbatim>\<open>Your token {token} is invalid\<close>; when none fails, \<^verbatim>\<open>validate\<close> returns with no value.
\<close>

theorem validate_first_failing_check:
  "(commands self cmd = None \<longrightarrow>
      validate self cmd token meth =
        Inl (SlackError (''Command '' @ py_format cmd @ '' is not found'')))
   \<and> (\<forall>func t ms kw. commands self cmd = Some (func, t, ms, kw) \<longrightarrow>
        (meth \<notin> set ms \<longrightarrow>
           validate self cmd token meth = Inl (SlackError (meth @ '' request is not allowed'')))
      \<and> (meth \<in> set ms \<and> truthy t \<and> token \<noteq> t \<longrightarrow>
           validate self cmd token meth =
             Inl (SlackError (''Your token '' @ py_format token @ '' is invalid'')))
      \<and> (meth \<in> set ms \<and> \<not> (truthy t \<and> token \<noteq> t) \<longrightarrow>
           validate self cmd token meth = Inr ()))"
  by (simp add: validate_def)

text \<open>
  One registry, four calls: an unknown command (with a method and a token that would fail
  too), a method that is not allowed (with a token that would fail too), a wrong token,
  and a call that passes.
\<close>

theorem validate_first_failing_check_witness:
  "validate (snd (command init (Some ''deploy'') (Some ''abc'') [''POST''] Map.empty your_method))
      (Some ''status'') (Some ''xyz'') ''GET''
     = Inl (SlackError ''Command status is not found'')
   \<and> validate (snd (command init (Some ''deploy'') (Some ''abc'') [''POST''] Map.empty your_method))
      (Some ''deploy'') (Some ''xyz'') ''GET''
     = Inl (SlackError ''GET request is not allowed'')
   \<and> validate (snd (command init (Some ''deploy'') (Some ''abc'') [''POST''] Map.empty your_method))
      (Some ''deploy'') (Some ''xyz'') ''POST''
     = Inl (SlackError ''Your token xyz is invalid'')
   \<and> validate (snd (command init (Some ''deploy'') (Some ''abc'') [''POST''] Map.empty your_method))
      (Some ''deploy'') (Some ''abc'') ''POST''
     = Inr ()"
  using
    validate_first_failing_check
      [of "snd (command init (Some ''deploy'') (Some ''abc'') [''POST''] Map.empty your_method)"
          "Some ''status''" "Some ''xyz''" "''GET''"]
    validate_first_failing_check
      [of "snd (command init (Some ''deploy'') (Some ''abc'') [''POST''] Map.empty your_method)"
          "Some ''deploy''" "Some ''xyz''" "''GET''"]
    validate_first_failing_check
      [of "snd (command init (Some ''deploy'') (Some ''abc'') [''POST''] Map.empty your_method)"
          "Some ''deploy''" "Some ''xyz''" "''POST''"]
    validate_first_failing_check
      [of "snd (command init (Some ''deploy'') (Some ''abc'') [''POST''] Map.empty your_method)"
          "Some ''deploy''" "Some ''abc''" "''POST''"]
  by (simp add: command_def init_def)

text \<open>
  C6. When the registered token is \<^verbatim>\<open>None\<close> or the empty string, the token check passes
  for every supplied token, an absent one too: the outcome of \<^verbatim>\<open>validate\<close> for a
  registered command is then decided by the method alone.
\<close>

theorem validate_no_secret:
  assumes "commands self cmd = Some (func, t, ms, kw)" and "t = None \<or> t = Some ''''"
  shows "validate self cmd token meth =
           (if meth \<in> set ms then Inr ()
            else Inl (SlackError (meth @ '' request is not allowed'')))"
  using assms by (auto simp: validate_def)

theorem validate_no_secret_witness:
  "validate (snd (command init (Some ''ping'') None [''GET''] Map.empty your_method))
      (Some ''ping'') (Some ''anything'') ''GET'' = Inr ()
   \<and> validate (snd (command init (Some ''ping'') (Some '''') [''GET''] Map.empty your_method))
      (Some ''ping'') None ''GET'' = Inr ()"
proof -
  have r1: "commands (snd (command init (Some ''ping'') None [''GET''] Map.empty your_method))
              (Some ''ping'') = Some (your_method, None, [''GET''], Map.empty)"
    by (simp add: command_def init_def)
  have r2: "commands (snd (command init (Some ''ping'') (Some '''') [''GET''] Map.empty your_method))
              (Some ''ping'') = Some (your_method, Some '''', [''GET''], Map.empty)"
    by (simp add: command_def init_def)
  have t1: "(None :: string option) = None \<or> (None :: string option) = Some ''''" by simp
  have t2: "Some '''' = (None :: string option) \<or> Some '''' = Some ''''" by simp
  show ?thesis
    using validate_no_secret [OF r1 t1, of "Some ''anything''" "''GET''"]
          validate_no_secret [OF r2 t2, of None "''GET''"]
    by simp
qed

section \<open>Properties of response\<close>

lemma response_default:
  "response text rt PyNone h =
     (PyDict [(''response_type'', rt), (''text'', text), (''attachments'', PyList (length h))],
      h @ [[]])"
  by (simp add: response_def new_list_def)

text \<open>
  C8. A call of \<^verbatim>\<open>response\<close> with no attachments makes a new empty list: its address is
  the first one the store has not used. Two such calls, the second on any later store
  \<open>h'\<close> (the store only grows; it may have changed the first list), give two different
  list objects, both empty when made, and writing to one leaves the other as it was.
\<close>

theorem response_fresh_attachments:
  assumes "response t1 r1 PyNone h = (e1, h1)"
      and "length h1 \<le> length h'"
      and "response t2 r2 PyNone h' = (e2, h2)"
  shows "py_get e1 ''attachments'' = Some (PyList (length h))
       \<and> py_get e2 ''attachments'' = Some (PyList (length h'))
       \<and> length h \<noteq> length h'
       \<and> length h < length h1 \<and> h1 ! length h = []
       \<and> length h' < length h2 \<and> h2 ! length h' = []
       \<and> h2 ! length h = h' ! length h
       \<and> (h2[length h := xs]) ! length h' = []
       \<and> (h2[length h' := xs]) ! length h = h' ! length h"
proof -
  from assms(1) have e1: "e1 = PyDict [(''response_type'', r1), (''text'', t1),
                                      (''attachments'', PyList (length h))]"
    and h1: "h1 = h @ [[]]"
    by (simp_all add: response_default)
  from assms(3) have e2: "e2 = PyDict [(''response_type'', r2), (''text'', t2),
                                      (''attachments'', PyList (length h'))]"
    and h2: "h2 = h' @ [[]]"
    by (simp_all add: response_default)
  from assms(2) h1 have lt: "length h < length h'" by simp
  show ?thesis
    using lt by (simp add: e1 e2 h1 h2 nth_append)
qed

text \<open>
  Two calls from the empty store; between them the first envelope's list is given an
  element. The second envelope's list is at another address and is empty.
\<close>

theorem response_fresh_attachments_witness:
  "py_get (PyDict [(''response_type'', PyStr ''ephemeral''), (''text'', PyStr ''a''),
                   (''attachments'', PyList 0)]) ''attachments'' = Some (PyList 0)
   \<and> py_get (PyDict [(''response_type'', PyStr ''ephemeral''), (''text'', PyStr ''b''),
                   (''attachments'', PyList 1)]) ''attachments'' = Some (PyList 1)
   \<and> [[PyInt 7], []] ! 0 = [PyInt 7] \<and> [[PyInt 7], []] ! 1 = []
   \<and> ([[PyInt 7], []] [0 := [PyInt 8]]) ! 1 = []"
proof -
  have c1: "response (PyStr ''a'') (PyStr ''ephemeral'') PyNone [] =
              (PyDict [(''response_type'', PyStr ''ephemeral''), (''text'', PyStr ''a''),
                       (''attachments'', PyList 0)], [[]])"
    by (simp add: response_def new_list_def)
  have grow: "length [[] :: pyval list] \<le> length [[PyInt 7]]" by simp
  have c2: "response (PyStr ''b'') (PyStr ''ephemeral'') PyNone [[PyInt 7]] =
              (PyDict [(''response_type'', PyStr ''ephemeral''), (''text'', PyStr ''b''),
                       (''attachments'', PyList 1)], [[PyInt 7], []])"
    by (simp add: response_def new_list_def)
  show ?thesis
    using response_fresh_attachments [OF c1 grow c2, of "[PyInt 8]"] by simp
qed

section \<open>Properties of dispatch\<close>

lemma dispatch_reads_method_and_data:
  assumes "req_method r = req_method r'" and "dispatch_data r = dispatch_data r'"
  shows "dispatch self r h = dispatch self r' h"
  using assms by (simp add: dispatch_def)

lemma dispatch_rejected:
  assumes "validate self (dispatch_command (dispatch_data req))
             (dispatch_data req ''token'') (req_method req) = Inl e"
  shows "dispatch self req h =
           (Inr (PyDict [(''response_type'', PyStr ''ephemeral''),
                         (''text'', PyStr (msg e)),
                         (''attachments'', PyList (length h))]),
            self, h @ [[]])"
  using assms by (simp add: dispatch_def Let_def response_default)

lemma dispatch_accepted:
  assumes "validate self (dispatch_command (dispatch_data req))
             (dispatch_data req ''token'') (req_method req) = Inr u"
      and "commands self (dispatch_command (dispatch_data req)) = Some (func, t, ms, kw)"
  shows "dispatch self req h =
           (fst (func (kw ++ to_dict (dispatch_data req)) h),
            self\<lparr>commands := (commands self)
                (dispatch_command (dispatch_data req) \<mapsto>
                   (func, t, ms, kw ++ to_dict (dispatch_data req)))\<rparr>,
            snd (func (kw ++ to_dict (dispatch_data req)) h))"
  using assms by (simp add: dispatch_def Let_def split: prod.splits)

text \<open>
  C7. The parameters that \<^verbatim>\<open>dispatch\<close> reads are the query parameters when the method is
  \<^verbatim>\<open>GET\<close>, the form parameters when it is \<^verbatim>\<open>POST\<close>, and the query parameters for every
  other method. With \<open>src\<close> the parameters so selected: the command that is validated is
  extracted from \<open>src\<close> and the token that is validated is the \<^verbatim>\<open>token\<close> of \<open>src\<close>, so
  a validation error of these two is the text of the answer; when they pass, the handler
  is called with the registration's \<^verbatim>\<open>kwargs\<close> updated with \<open>src\<close>; and the parameters
  not selected are never read, \<^verbatim>\<open>dispatch\<close> doing the same on the request whose query and
  form parameters are both \<open>src\<close>.
\<close>

theorem dispatch_parameter_source:
  assumes "src = (if req_method req = ''GET'' then args req
                  else if req_method req = ''POST'' then form req
                  else args req)"
  shows "dispatch_data req = src
       \<and> (\<forall>e. validate self (dispatch_command src) (src ''token'') (req_method req) = Inl e \<longrightarrow>
             dispatch self req h =
               (Inr (PyDict [(''response_type'', PyStr ''ephemeral''),
                             (''text'', PyStr (msg e)),
                             (''attachments'', PyList (length h))]),
                self, h @ [[]]))
       \<and> (\<forall>func t ms kw.
             validate self (dispatch_command src) (src ''token'') (req_method req) = Inr ()
             \<and> commands self (dispatch_command src) = Some (func, t, ms, kw) \<longrightarrow>
             dispatch self req h =
               (fst (func (kw ++ to_dict src) h),
                self\<lparr>commands := (commands self)
                    (dispatch_command src \<mapsto> (func, t, ms, kw ++ to_dict src))\<rparr>,
                snd (func (kw ++ to_dict src) h)))
       \<and> dispatch self req h = dispatch self (req\<lparr>args := src, form := src\<rparr>) h"
proof -
  have d: "dispatch_data req = src"
    using assms by (simp add: dispatch_data_def)
  have rej: "dispatch self req h =
               (Inr (PyDict [(''response_type'', PyStr ''ephemeral''),
                             (''text'', PyStr (msg e)),
                             (''attachments'', PyList (length h))]),
                self, h @ [[]])"
    if "validate self (dispatch_command src) (src ''token'') (req_method req) = Inl e" for e
    using that dispatch_rejected [of self req e h] by (simp add: d)
  have acc: "dispatch self req h =
               (fst (func (kw ++ to_dict src) h),
                self\<lparr>commands := (commands self)
                    (dispatch_command src \<mapsto> (func, t, ms, kw ++ to_dict src))\<rparr>,
                snd (func (kw ++ to_dict src) h))"
    if "validate self (dispatch_command src) (src ''token'') (req_method req) = Inr ()"
      and "commands self (dispatch_command src) = Some (func, t, ms, kw)" for func t ms kw
    using that dispatch_accepted [of self req "()" func t ms kw h] by (simp add: d)
  have inv: "dispatch self req h = dispatch self (req\<lparr>args := src, form := src\<rparr>) h"
    by (rule dispatch_reads_method_and_data) (simp_all add: dispatch_data_def assms)
  from d rej acc inv show ?thesis by blast
qed

text \<open>
  \<^verbatim>\<open>deploy\<close> is registered with the token \<^verbatim>\<open>abc\<close> for \<^verbatim>\<open>GET\<close>, \<^verbatim>\<open>POST\<close> and \<^verbatim>\<open>PUT\<close>. One
  request has good query parameters with \<^verbatim>\<open>text=q\<close>, and form parameters naming the
  unknown command \<^verbatim>\<open>status\<close>: as a \<^verbatim>\<open>GET\<close> and as a \<^verbatim>\<open>PUT\<close> it is answered by the
  handler with the text \<^verbatim>\<open>q\<close>, as a \<^verbatim>\<open>POST\<close> with the not-found message. A \<^verbatim>\<open>POST\<close> whose
  form has the token \<^verbatim>\<open>xyz\<close> (the query has \<^verbatim>\<open>abc\<close>) gets the token message, and a
  \<^verbatim>\<open>POST\<close> whose form is good, with \<^verbatim>\<open>text=f\<close>, is answered with the text \<^verbatim>\<open>f\<close>.
\<close>

theorem dispatch_parameter_source_witness:
  "fst (dispatch
          (snd (command init (Some ''deploy'') (Some ''abc'') [''GET'', ''POST'', ''PUT'']
                  Map.empty your_method))
          \<lparr>req_method = ''GET'',
            args = map_of [(''command'', ''deploy''), (''token'', ''abc''), (''text'', ''q'')],
            form = map_of [(''command'', ''status''), (''token'', ''xyz''), (''text'', ''f'')]\<rparr>
          [])
     = Inr (PyDict [(''response_type'', PyStr ''ephemeral''), (''text'', PyStr ''q''),
                    (''attachments'', PyList 0)])
   \<and> fst (dispatch
          (snd (command init (Some ''deploy'') (Some ''abc'') [''GET'', ''POST'', ''PUT'']
                  Map.empty your_method))
          \<lparr>req_method = ''POST'',
            args = map_of [(''command'', ''deploy''), (''token'', ''abc''), (''text'', ''q'')],
            form = map_of [(''command'', ''status''), (''token'', ''xyz''), (''text'', ''f'')]\<rparr>
          [])
     = Inr (PyDict [(''response_type'', PyStr ''ephemeral''),
                    (''text'', PyStr ''Command status is not found''),
                    (''attachments'', PyList 0)])
   \<and> fst (dispatch
          (snd (command init (Some ''deploy'') (Some ''abc'') [''GET'', ''POST'', ''PUT'']
                  Map.empty your_method))
          \<lparr>req_method = ''PUT'',
            args = map_of [(''command'', ''deploy''), (''token'', ''abc''), (''text'', ''q'')],
            form = map_of [(''command'', ''status''), (''token'', ''xyz''), (''text'', ''f'')]\<rparr>
          [])
     = Inr (PyDict [(''response_type'', PyStr ''ephemeral''), (''text'', PyStr ''q''),
                    (''attachments'', PyList 0)])
   \<and> fst (dispatch
          (snd (command init (Some ''deploy'') (Some ''abc'') [''GET'', ''POST'', ''PUT'']
                  Map.empty your_method))
          \<lparr>req_method = ''POST'',
            args = map_of [(''command'', ''deploy''), (''token'', ''abc''), (''text'', ''q'')],
            form = map_of [(''command'', ''deploy''), (''token'', ''xyz''), (''text'', ''f'')]\<rparr>
          [])
     = Inr (PyDict [(''response_type'', PyStr ''ephemeral''),
                    (''text'', PyStr ''Your token xyz is invalid''),
                    (''attachments'', PyList 0)])
   \<and> fst (dispatch
          (snd (command init (Some ''deploy'') (Some ''abc'') [''GET'', ''POST'', ''PUT'']
                  Map.empty your_method))
          \<lparr>req_method = ''POST'',
            args = map_of [(''command'', ''status''), (''token'', ''xyz''), (''text'', ''q'')],
            form = map_of [(''command'', ''deploy''), (''token'', ''abc''), (''text'', ''f'')]\<rparr>
          [])
     = Inr (PyDict [(''response_type'', PyStr ''ephemeral''), (''text'', PyStr ''f''),
                    (''attachments'', PyList 0)])"
proof -
  let ?self = "snd (command init (Some ''deploy'') (Some ''abc'') [''GET'', ''POST'', ''PUT'']
                      Map.empty your_method)"
  let ?good = "map_of [(''command'', ''deploy''), (''token'', ''abc''), (''text'', ''q'')]"
  let ?unknown = "map_of [(''command'', ''status''), (''token'', ''xyz''), (''text'', ''f'')]"
  let ?badtok = "map_of [(''command'', ''deploy''), (''token'', ''xyz''), (''text'', ''f'')]"
  let ?unknownq = "map_of [(''command'', ''status''), (''token'', ''xyz''), (''text'', ''q'')]"
  let ?goodf = "map_of [(''command'', ''deploy''), (''token'', ''abc''), (''text'', ''f'')]"
  let ?get = "\<lparr>req_method = ''GET'', args = ?good, form = ?unknown\<rparr>"
  let ?post = "\<lparr>req_method = ''POST'', args = ?good, form = ?unknown\<rparr>"
  let ?put = "\<lparr>req_method = ''PUT'', args = ?good, form = ?unknown\<rparr>"
  let ?post2 = "\<lparr>req_method = ''POST'', args = ?good, form = ?badtok\<rparr>"
  let ?post3 = "\<lparr>req_method = ''POST'', args = ?unknownq, form = ?goodf\<rparr>"
  have reg: "commands ?self (Some ''deploy'')
               = Some (your_method, Some ''abc'', [''GET'', ''POST'', ''PUT''], Map.empty)"
    by (simp add: command_def init_def)
  have nreg: "commands ?self (Some ''status'') = None"
    by (simp add: command_def init_def)
  have cg: "dispatch_command ?good = Some ''deploy''"
    by (simp add: dispatch_command_def py_or_def strip_def lstrip_def isspace_def)
  have cu: "dispatch_command ?unknown = Some ''status''"
    by (simp add: dispatch_command_def py_or_def strip_def lstrip_def isspace_def)
  have cb: "dispatch_command ?badtok = Some ''deploy''"
    by (simp add: dispatch_command_def py_or_def strip_def lstrip_def isspace_def)
  have cf: "dispatch_command ?goodf = Some ''deploy''"
    by (simp add: dispatch_command_def py_or_def strip_def lstrip_def isspace_def)
  have callq: "your_method (Map.empty ++ to_dict ?good) [] =
                 (Inr (PyDict [(''response_type'', PyStr ''ephemeral''), (''text'', PyStr ''q''),
                               (''attachments'', PyList 0)]), [[]])"
    by (simp add: your_method_def response_default to_dict_def map_add_def)
  have callf: "your_method (Map.empty ++ to_dict ?goodf) [] =
                 (Inr (PyDict [(''response_type'', PyStr ''ephemeral''), (''text'', PyStr ''f''),
                               (''attachments'', PyList 0)]), [[]])"
    by (simp add: your_method_def response_default to_dict_def map_add_def)
  \<comment> \<open>GET: the query parameters\<close>
  have s1: "?good = (if req_method ?get = ''GET'' then args ?get
                     else if req_method ?get = ''POST'' then form ?get else args ?get)"
    by simp
  have v1: "validate ?self (dispatch_command ?good) (?good ''token'') (req_method ?get) = Inr ()
            \<and> commands ?self (dispatch_command ?good)
                = Some (your_method, Some ''abc'', [''GET'', ''POST'', ''PUT''], Map.empty)"
    unfolding cg using reg by (simp add: validate_def)
  note g = dispatch_parameter_source [OF s1, of ?self "[]", THEN conjunct2, THEN conjunct2,
             THEN conjunct1, rule_format, OF v1]
  have r1: "fst (dispatch ?self ?get []) =
              Inr (PyDict [(''response_type'', PyStr ''ephemeral''), (''text'', PyStr ''q''),
                           (''attachments'', PyList 0)])"
    unfolding g callq by (simp only: fst_conv)
  \<comment> \<open>POST: the form parameters, here an unknown command\<close>
  have s2: "?unknown = (if req_method ?post = ''GET'' then args ?post
                        else if req_method ?post = ''POST'' then form ?post else args ?post)"
    by simp
  have v2: "validate ?self (dispatch_command ?unknown) (?unknown ''token'') (req_method ?post)
              = Inl (SlackError ''Command status is not found'')"
    unfolding cu using nreg by (simp add: validate_def)
  note p = dispatch_parameter_source [OF s2, of ?self "[]", THEN conjunct2, THEN conjunct1,
             rule_format, OF v2]
  have r2: "fst (dispatch ?self ?post []) =
              Inr (PyDict [(''response_type'', PyStr ''ephemeral''),
                           (''text'', PyStr ''Command status is not found''),
                           (''attachments'', PyList 0)])"
    unfolding p by simp
  \<comment> \<open>PUT: the query parameters again\<close>
  have s3: "?good = (if req_method ?put = ''GET'' then args ?put
                     else if req_method ?put = ''POST'' then form ?put else args ?put)"
    by simp
  have v3: "validate ?self (dispatch_command ?good) (?good ''token'') (req_method ?put) = Inr ()
            \<and> commands ?self (dispatch_command ?good)
                = Some (your_method, Some ''abc'', [''GET'', ''POST'', ''PUT''], Map.empty)"
    unfolding cg using reg by (simp add: validate_def)
  note u = dispatch_parameter_source [OF s3, of ?self "[]", THEN conjunct2, THEN conjunct2,
             THEN conjunct1, rule_format, OF v3]
  have r3: "fst (dispatch ?self ?put []) =
              Inr (PyDict [(''response_type'', PyStr ''ephemeral''), (''text'', PyStr ''q''),
                           (''attachments'', PyList 0)])"
    unfolding u callq by (simp only: fst_conv)
  \<comment> \<open>POST: the token of the form\<close>
  have s4: "?badtok = (if req_method ?post2 = ''GET'' then args ?post2
                       else if req_method ?post2 = ''POST'' then form ?post2 else args ?post2)"
    by simp
  have v4: "validate ?self (dispatch_command ?badtok) (?badtok ''token'') (req_method ?post2)
              = Inl (SlackError ''Your token xyz is invalid'')"
    unfolding cb using reg by (simp add: validate_def)
  note b = dispatch_parameter_source [OF s4, of ?self "[]", THEN conjunct2, THEN conjunct1,
             rule_format, OF v4]
  have r4: "fst (dispatch ?self ?post2 []) =
              Inr (PyDict [(''response_type'', PyStr ''ephemeral''),
                           (''text'', PyStr ''Your token xyz is invalid''),
                           (''attachments'', PyList 0)])"
    unfolding b by simp
  \<comment> \<open>POST: the handler's arguments are the form's\<close>
  have s5: "?goodf = (if req_method ?post3 = ''GET'' then args ?post3
                      else if req_method ?post3 = ''POST'' then form ?post3 else args ?post3)"
    by simp
  have v5: "validate ?self (dispatch_command ?goodf) (?goodf ''token'') (req_method ?post3) = Inr ()
            \<and> commands ?self (dispatch_command ?goodf)
                = Some (your_method, Some ''abc'', [''GET'', ''POST'', ''PUT''], Map.empty)"
    unfolding cf using reg by (simp add: validate_def)
  note f = dispatch_parameter_source [OF s5, of ?self "[]", THEN conjunct2, THEN conjunct2,
             THEN conjunct1, rule_format, OF v5]
  have r5: "fst (dispatch ?self ?post3 []) =
              Inr (PyDict [(''response_type'', PyStr ''ephemeral''), (''text'', PyStr ''f''),
                           (''attachments'', PyList 0)])"
    unfolding f callf by (simp only: fst_conv)
  from r1 r2 r3 r4 r5 show ?thesis by (intro conjI)
qed

text \<open>
  C4. An error raised by \<^verbatim>\<open>validate\<close> does not leave \<^verbatim>\<open>dispatch\<close>: the call returns the
  envelope whose text is the error's message, with response type \<^verbatim>\<open>ephemeral\<close> and a new,
  empty attachments list, and leaves the registry as it was. For a command name \<open>c'\<close>
  that is not registered the text is \<^verbatim>\<open>Command c' is not found\<close>.
\<close>

theorem dispatch_validation_error_is_response:
  "(\<forall>e. validate self (dispatch_command (dispatch_data req))
             (dispatch_data req ''token'') (req_method req) = Inl e \<longrightarrow>
        dispatch self req h =
          (Inr (PyDict [(''response_type'', PyStr ''ephemeral''),
                        (''text'', PyStr (msg e)),
                        (''attachments'', PyList (length h))]),
           self, h @ [[]])
        \<and> (h @ [[]]) ! length h = [])
   \<and> (\<forall>c'. dispatch_command (dispatch_data req) = Some c' \<and> commands self (Some c') = None \<longrightarrow>
        dispatch self req h =
          (Inr (PyDict [(''response_type'', PyStr ''ephemeral''),
                        (''text'', PyStr (''Command '' @ c' @ '' is not found'')),
                        (''attachments'', PyList (length h))]),
           self, h @ [[]]))"
proof (intro conjI allI impI)
  fix e
  assume "validate self (dispatch_command (dispatch_data req))
             (dispatch_data req ''token'') (req_method req) = Inl e"
  then show "dispatch self req h =
          (Inr (PyDict [(''response_type'', PyStr ''ephemeral''),
                        (''text'', PyStr (msg e)),
                        (''attachments'', PyList (length h))]),
           self, h @ [[]])"
    by (rule dispatch_rejected)
next
  show "(h @ [[]]) ! length h = []" by simp
next
  fix c'
  assume a: "dispatch_command (dispatch_data req) = Some c' \<and> commands self (Some c') = None"
  then have "validate self (dispatch_command (dispatch_data req))
             (dispatch_data req ''token'') (req_method req)
           = Inl (SlackError (''Command '' @ c' @ '' is not found''))"
    by (simp add: validate_def)
  from dispatch_rejected [OF this]
  show "dispatch self req h =
          (Inr (PyDict [(''response_type'', PyStr ''ephemeral''),
                        (''text'', PyStr (''Command '' @ c' @ '' is not found'')),
                        (''attachments'', PyList (length h))]),
           self, h @ [[]])"
    by simp
qed

text \<open>
  A registry holding \<^verbatim>\<open>deploy\<close> (token \<^verbatim>\<open>abc\<close>, method \<^verbatim>\<open>POST\<close>): a \<^verbatim>\<open>POST\<close> with the
  token \<^verbatim>\<open>xyz\<close> gets the token message, and a request for \<^verbatim>\<open>status\<close> the not-found one.
\<close>

theorem dispatch_validation_error_is_response_witness:
  "dispatch (snd (command init (Some ''deploy'') (Some ''abc'') [''POST''] Map.empty your_method))
      \<lparr>req_method = ''POST'', args = Map.empty,
        form = map_of [(''command'', ''/deploy''), (''token'', ''xyz'')]\<rparr> []
     = (Inr (PyDict [(''response_type'', PyStr ''ephemeral''),
                     (''text'', PyStr ''Your token xyz is invalid''),
                     (''attachments'', PyList 0)]),
        snd (command init (Some ''deploy'') (Some ''abc'') [''POST''] Map.empty your_method),
        [[]])
   \<and> dispatch (snd (command init (Some ''deploy'') (Some ''abc'') [''POST''] Map.empty your_method))
      \<lparr>req_method = ''GET'', args = map_of [(''command'', ''/status'')], form = Map.empty\<rparr> []
     = (Inr (PyDict [(''response_type'', PyStr ''ephemeral''),
                     (''text'', PyStr ''Command status is not found''),
                     (''attachments'', PyList 0)]),
        snd (command init (Some ''deploy'') (Some ''abc'') [''POST''] Map.empty your_method),
        [[]])"
proof -
  let ?self = "snd (command init (Some ''deploy'') (Some ''abc'') [''POST''] Map.empty your_method)"
  let ?r1 = "\<lparr>req_method = ''POST'', args = Map.empty,
               form = map_of [(''command'', ''/deploy''), (''token'', ''xyz'')]\<rparr>"
  let ?r2 = "\<lparr>req_method = ''GET'', args = map_of [(''command'', ''/status'')], form = Map.empty\<rparr>"
  have c1: "dispatch_command (dispatch_data ?r1) = Some ''deploy''"
    by (simp add: dispatch_data_def dispatch_command_def py_or_def strip_def lstrip_def
                  isspace_def)
  have v1: "validate ?self (dispatch_command (dispatch_data ?r1))
              (dispatch_data ?r1 ''token'') (req_method ?r1)
            = Inl (SlackError ''Your token xyz is invalid'')"
    unfolding c1 by (simp add: validate_def command_def init_def dispatch_data_def)
  have c2: "dispatch_command (dispatch_data ?r2) = Some ''status''"
    by (simp add: dispatch_data_def dispatch_command_def py_or_def strip_def lstrip_def
                  isspace_def)
  have n2: "commands ?self (Some ''status'') = None"
    by (simp add: command_def init_def)
  note thm1 = dispatch_validation_error_is_response [of ?self ?r1 "[]", THEN conjunct1,
                rule_format, OF v1, THEN conjunct1]
  note thm2 = dispatch_validation_error_is_response [of ?self ?r2 "[]", THEN conjunct2,
                rule_format, OF conjI, OF c2 n2]
  show ?thesis using thm1 thm2 by simp
qed

text \<open>
  C5. When the request's command is the registered command \<open>c\<close>, its method is among the
  registration's methods and its token is the registered one, \<^verbatim>\<open>dispatch\<close> returns what
  one call of \<open>c\<close>'s handler returns, on the store as it was, and leaves the store as
  that one call leaves it. The handler's arguments are the registration's \<^verbatim>\<open>kwargs\<close>
  updated with the request's parameters: a key of the request has the request's value,
  every other key the registration's.
\<close>

theorem dispatch_invokes_handler:
  assumes "dispatch_command (dispatch_data req) = Some c"
      and "commands self (Some c) = Some (func, t, ms, kw)"
      and "req_method req \<in> set ms"
      and "dispatch_data req ''token'' = t"
  shows "fst (dispatch self req h) = fst (func (kw ++ to_dict (dispatch_data req)) h)
       \<and> snd (snd (dispatch self req h)) = snd (func (kw ++ to_dict (dispatch_data req)) h)
       \<and> (\<forall>k v. dispatch_data req k = Some v \<longrightarrow>
             (kw ++ to_dict (dispatch_data req)) k = Some (PyStr v))
       \<and> (\<forall>k. dispatch_data req k = None \<longrightarrow>
             (kw ++ to_dict (dispatch_data req)) k = kw k)"
proof -
  have v: "validate self (dispatch_command (dispatch_data req))
             (dispatch_data req ''token'') (req_method req) = Inr ()"
    using assms by (simp add: validate_def)
  have r: "commands self (dispatch_command (dispatch_data req)) = Some (func, t, ms, kw)"
    using assms by simp
  show ?thesis
    by (simp add: dispatch_accepted [OF v r] to_dict_def map_add_def)
qed

text \<open>
  \<^verbatim>\<open>deploy\<close> is registered with \<^verbatim>\<open>text='default'\<close>; the request brings \<^verbatim>\<open>text=hello\<close>, and
  the handler of the docstring answers with the request's text.
\<close>

theorem dispatch_invokes_handler_witness:
  "fst (dispatch (snd (command init (Some ''deploy'') (Some ''abc'') [''POST'']
                         (map_of [(''text'', PyStr ''default'')]) your_method))
          \<lparr>req_method = ''POST'', args = Map.empty,
            form = map_of [(''command'', ''  /deploy  ''), (''token'', ''abc''),
                           (''text'', ''hello'')]\<rparr> [])
     = Inr (PyDict [(''response_type'', PyStr ''ephemeral''),
                    (''text'', PyStr ''hello''),
                    (''attachments'', PyList 0)])
   \<and> snd (snd (dispatch (snd (command init (Some ''deploy'') (Some ''abc'') [''POST'']
                         (map_of [(''text'', PyStr ''default'')]) your_method))
          \<lparr>req_method = ''POST'', args = Map.empty,
            form = map_of [(''command'', ''  /deploy  ''), (''token'', ''abc''),
                           (''text'', ''hello'')]\<rparr> []))
     = [[]]"
proof -
  let ?kw = "map_of [(''text'', PyStr ''default'')]"
  let ?self = "snd (command init (Some ''deploy'') (Some ''abc'') [''POST''] ?kw your_method)"
  let ?req = "\<lparr>req_method = ''POST'', args = Map.empty,
                form = map_of [(''command'', ''  /deploy  ''), (''token'', ''abc''),
                               (''text'', ''hello'')]\<rparr>"
  have c: "dispatch_command (dispatch_data ?req) = Some ''deploy''"
    by (simp add: dispatch_data_def dispatch_command_def py_or_def strip_def lstrip_def
                  isspace_def)
  have r: "commands ?self (Some ''deploy'') = Some (your_method, Some ''abc'', [''POST''], ?kw)"
    by (simp add: command_def init_def)
  have m: "req_method ?req \<in> set [''POST'']" by simp
  have t: "dispatch_data ?req ''token'' = Some ''abc''"
    by (simp add: dispatch_data_def)
  have call: "your_method (?kw ++ to_dict (dispatch_data ?req)) [] =
                (Inr (PyDict [(''response_type'', PyStr ''ephemeral''),
                              (''text'', PyStr ''hello''),
                              (''attachments'', PyList 0)]), [[]])"
    by (simp add: your_method_def response_default to_dict_def dispatch_data_def map_add_def)
  note d = dispatch_invokes_handler [OF c r m t, of "[]"]
  show ?thesis
    using d [THEN conjunct1] d [THEN conjunct2, THEN conjunct1]
    by (simp only: call fst_conv snd_conv)
qed

text \<open>
  C9. When the parameters hold a \<^verbatim>\<open>command\<close> key with the empty string and a
  \<^verbatim>\<open>trigger_word\<close> key, the command is taken from the trigger word, as it is when the
  \<^verbatim>\<open>command\<close> key is absent; \<^verbatim>\<open>dispatch\<close> looks that command up, so when it is not
  registered the answer names it.
\<close>

theorem dispatch_empty_command_uses_trigger_word:
  assumes "dispatch_data req ''command'' = Some ''''"
      and "dispatch_data req ''trigger_word'' = Some w"
  shows "dispatch_command (dispatch_data req) = Some (lstrip ''/'' (strip w))
       \<and> dispatch_command (dispatch_data req) =
           dispatch_command ((dispatch_data req)(''command'' := None))
       \<and> (commands self (Some (lstrip ''/'' (strip w))) = None \<longrightarrow>
            fst (dispatch self req h) =
              Inr (PyDict [(''response_type'', PyStr ''ephemeral''),
                           (''text'', PyStr (''Command '' @ lstrip ''/'' (strip w)
                                             @ '' is not found'')),
                           (''attachments'', PyList (length h))]))"
proof -
  have c: "dispatch_command (dispatch_data req) = Some (lstrip ''/'' (strip w))"
    using assms by (simp add: dispatch_command_def py_or_def)
  have a: "dispatch_command (dispatch_data req) =
           dispatch_command ((dispatch_data req)(''command'' := None))"
    using assms by (simp add: dispatch_command_def py_or_def)
  have n: "fst (dispatch self req h) =
              Inr (PyDict [(''response_type'', PyStr ''ephemeral''),
                           (''text'', PyStr (''Command '' @ lstrip ''/'' (strip w)
                                             @ '' is not found'')),
                           (''attachments'', PyList (length h))])"
    if "commands self (Some (lstrip ''/'' (strip w))) = None"
  proof -
    have "validate self (dispatch_command (dispatch_data req))
             (dispatch_data req ''token'') (req_method req)
           = Inl (SlackError (''Command '' @ lstrip ''/'' (strip w) @ '' is not found''))"
      using that c by (simp add: validate_def)
    from dispatch_rejected [OF this] show ?thesis by simp
  qed
  from c a n show ?thesis by blast
qed

theorem dispatch_empty_command_uses_trigger_word_witness:
  "dispatch_command
     (dispatch_data \<lparr>req_method = ''GET'',
                     args = map_of [(''command'', ''''), (''trigger_word'', ''/status'')],
                     form = Map.empty\<rparr>) = Some ''status''
   \<and> fst (dispatch init
            \<lparr>req_method = ''GET'',
              args = map_of [(''command'', ''''), (''trigger_word'', ''/status'')],
              form = Map.empty\<rparr> [])
      = Inr (PyDict [(''response_type'', PyStr ''ephemeral''),
                     (''text'', PyStr ''Command status is not found''),
                     (''attachments'', PyList 0)])"
proof -
  let ?req = "\<lparr>req_method = ''GET'',
                args = map_of [(''command'', ''''), (''trigger_word'', ''/status'')],
                form = Map.empty\<rparr>"
  have e: "dispatch_data ?req ''command'' = Some ''''"
    by (simp add: dispatch_data_def)
  have w: "dispatch_data ?req ''trigger_word'' = Some ''/status''"
    by (simp add: dispatch_data_def)
  have s: "lstrip ''/'' (strip ''/status'') = ''status''"
    by (simp add: strip_def lstrip_def isspace_def)
  show ?thesis
    using dispatch_empty_command_uses_trigger_word [OF e w, of init "[]"]
    by (simp add: s init_def)
qed

text \<open>
  C10. When the parameters hold neither a \<^verbatim>\<open>command\<close> nor a \<^verbatim>\<open>trigger_word\<close> key, the
  command is \<^verbatim>\<open>None\<close> and is not stripped; against a registry with no registration under
  \<^verbatim>\<open>None\<close>, \<^verbatim>\<open>dispatch\<close> returns the envelope with the text \<^verbatim>\<open>Command None is not found\<close>,
  response type \<^verbatim>\<open>ephemeral\<close> and a new, empty attachments list.
\<close>

theorem dispatch_no_command_field:
  assumes "dispatch_data req ''command'' = None"
      and "dispatch_data req ''trigger_word'' = None"
      and "commands self None = None"
  shows "dispatch_command (dispatch_data req) = None
       \<and> dispatch self req h =
          (Inr (PyDict [(''response_type'', PyStr ''ephemeral''),
                        (''text'', PyStr ''Command None is not found''),
                        (''attachments'', PyList (length h))]),
           self, h @ [[]])
       \<and> (h @ [[]]) ! length h = []"
proof -
  have c: "dispatch_command (dispatch_data req) = None"
    using assms by (simp add: dispatch_command_def py_or_def)
  have "validate self (dispatch_command (dispatch_data req))
             (dispatch_data req ''token'') (req_method req)
           = Inl (SlackError ''Command None is not found'')"
    using assms c by (simp add: validate_def)
  from dispatch_rejected [OF this] c show ?thesis by simp
qed

theorem dispatch_no_command_field_witness:
  "dispatch init \<lparr>req_method = ''GET'', args = map_of [(''text'', ''hi'')], form = Map.empty\<rparr> []
     = (Inr (PyDict [(''response_type'', PyStr ''ephemeral''),
                     (''text'', PyStr ''Command None is not found''),
                     (''attachments'', PyList 0)]),
        init, [[]])"
proof -
  let ?req = "\<lparr>req_method = ''GET'', args = map_of [(''text'', ''hi'')], form = Map.empty\<rparr>"
  have c: "dispatch_data ?req ''command'' = None" by (simp add: dispatch_data_def)
  have w: "dispatch_data ?req ''trigger_word'' = None" by (simp add: dispatch_data_def)
  have n: "commands init None = None" by (simp add: init_def)
  show ?thesis
    using dispatch_no_command_field [OF c w n, of "[]"] by simp
qed

section \<open>The command name\<close>

lemma lstrip_slash: "lstrip ''/'' s = dropWhile (\<lambda>c. c = CHR ''/'') s"
  by (simp add: lstrip_def)

lemma dispatch_command_used_field:
  assumes "(data ''command'' = Some s \<and> s \<noteq> [])
         \<or> (\<not> truthy (data ''command'') \<and> data ''trigger_word'' = Some s)"
  shows "dispatch_command data = Some (lstrip ''/'' (strip s))"
  using assms by (auto simp: dispatch_command_def py_or_def)

lemma one_slash_agrees:
  assumes "take 2 s \<noteq> ''//''"
  shows "dropWhile (\<lambda>c. c = CHR ''/'') s = spec_strip_one_slash s"
proof (cases s)
  case Nil
  then show ?thesis by (simp add: spec_strip_one_slash_def)
next
  case (Cons c r)
  show ?thesis
  proof (cases "c = CHR ''/''")
    case False
    with Cons show ?thesis by (simp add: spec_strip_one_slash_def)
  next
    case True
    with Cons assms have "dropWhile (\<lambda>c. c = CHR ''/'') r = r"
      by (cases r) auto
    with Cons True show ?thesis by (simp add: spec_strip_one_slash_def)
  qed
qed

text \<open>
  C2, as the code has it. The command name is the value of the field used (the
  \<^verbatim>\<open>command\<close> field when it is not empty, the \<^verbatim>\<open>trigger_word\<close> field otherwise) with
  the surrounding white space removed and then every leading \<^verbatim>\<open>/\<close> removed, so the name
  never begins with \<^verbatim>\<open>/\<close>. When the trimmed value does not begin with two of them, this
  is the removal of at most one.
\<close>

theorem dispatch_command_strips_every_slash:
  assumes "(data ''command'' = Some s \<and> s \<noteq> [])
         \<or> (\<not> truthy (data ''command'') \<and> data ''trigger_word'' = Some s)"
  shows "dispatch_command data = Some (dropWhile (\<lambda>c. c = CHR ''/'') (strip s))
       \<and> (\<forall>r. dispatch_command data \<noteq> Some (CHR ''/'' # r))
       \<and> (take 2 (strip s) \<noteq> ''//'' \<longrightarrow>
            dispatch_command data = Some (spec_strip_one_slash (strip s)))"
proof -
  have c: "dispatch_command data = Some (dropWhile (\<lambda>c. c = CHR ''/'') (strip s))"
    using dispatch_command_used_field [OF assms] by (simp add: lstrip_slash)
  have n: "dropWhile (\<lambda>c. c = CHR ''/'') (strip s) \<noteq> CHR ''/'' # r" for r
  proof
    assume "dropWhile (\<lambda>c. c = CHR ''/'') (strip s) = CHR ''/'' # r"
    then have "\<not> (CHR ''/'' = CHR ''/'')"
      by (simp add: dropWhile_eq_Cons_conv)
    then show False by simp
  qed
  from c n one_slash_agrees [of "strip s"] show ?thesis by simp
qed

theorem dispatch_command_strips_every_slash_witness:
  "dispatch_command (map_of [(''command'', ''  /deploy  '')]) = Some ''deploy''
   \<and> dispatch_command (map_of [(''trigger_word'', ''/status'')]) = Some ''status''"
proof -
  have a: "(map_of [(''command'', ''  /deploy  '')] ''command'' = Some ''  /deploy  ''
            \<and> ''  /deploy  '' \<noteq> [])
         \<or> (\<not> truthy (map_of [(''command'', ''  /deploy  '')] ''command'')
            \<and> map_of [(''command'', ''  /deploy  '')] ''trigger_word'' = Some ''  /deploy  '')"
    by simp
  have b: "(map_of [(''trigger_word'', ''/status'')] ''command'' = Some ''/status''
            \<and> ''/status'' \<noteq> [])
         \<or> (\<not> truthy (map_of [(''trigger_word'', ''/status'')] ''command'')
            \<and> map_of [(''trigger_word'', ''/status'')] ''trigger_word'' = Some ''/status'')"
    by simp
  have s1: "dropWhile (\<lambda>c. c = CHR ''/'') (strip ''  /deploy  '') = ''deploy''"
    by (simp add: strip_def isspace_def)
  have s2: "dropWhile (\<lambda>c. c = CHR ''/'') (strip ''/status'') = ''status''"
    by (simp add: strip_def isspace_def)
  show ?thesis
    using dispatch_command_strips_every_slash [OF a, THEN conjunct1]
          dispatch_command_strips_every_slash [OF b, THEN conjunct1]
    by (simp only: s1 s2)
qed

text \<open>
  C2, as the specification words it, fails: of two leading slashes the code removes both,
  the removal of at most one leaves the second.
\<close>

theorem dispatch_command_one_slash_counterexample:
  "dispatch_command (map_of [(''command'', ''//deploy'')]) = Some ''deploy''
   \<and> spec_strip_one_slash (strip ''//deploy'') = ''/deploy''
   \<and> dispatch_command (map_of [(''command'', ''//deploy'')])
       \<noteq> Some (spec_strip_one_slash (strip ''//deploy''))"
  by (simp add: dispatch_command_def py_or_def strip_def lstrip_def isspace_def
                spec_strip_one_slash_def)

section \<open>The registered keyword arguments across requests\<close>

text \<open>
  C1 does not hold of the code. The handler of the docstring is registered with no extra
  arguments. A first request brings \<^verbatim>\<open>text=hello\<close>; \<^verbatim>\<open>kwargs.update\<close> writes it into the
  dict of the registration. A second request brings no \<^verbatim>\<open>text\<close>, and the handler is
  called with \<^verbatim>\<open>text='hello'\<close> all the same: its answer has the text \<^verbatim>\<open>hello\<close>, where the
  same request on the registry as registered is answered with the text \<^verbatim>\<open>None\<close>.
\<close>

theorem dispatch_changes_registered_kwargs:
  "fst (dispatch
         (fst (snd (dispatch
            (snd (command init (Some ''your_command'') None [''GET''] Map.empty your_method))
            \<lparr>req_method = ''GET'',
              args = map_of [(''command'', ''your_command''), (''text'', ''hello'')],
              form = Map.empty\<rparr> [])))
         \<lparr>req_method = ''GET'', args = map_of [(''command'', ''your_command'')],
           form = Map.empty\<rparr> [[]])
     = Inr (PyDict [(''response_type'', PyStr ''ephemeral''),
                    (''text'', PyStr ''hello''),
                    (''attachments'', PyList 1)])
   \<and> fst (dispatch
         (snd (command init (Some ''your_command'') None [''GET''] Map.empty your_method))
         \<lparr>req_method = ''GET'', args = map_of [(''command'', ''your_command'')],
           form = Map.empty\<rparr> [[]])
     = Inr (PyDict [(''response_type'', PyStr ''ephemeral''),
                    (''text'', PyNone),
                    (''attachments'', PyList 1)])"
  by (simp add: dispatch_def Let_def validate_def command_def init_def dispatch_data_def
                dispatch_command_def py_or_def strip_def lstrip_def isspace_def to_dict_def
                your_method_def response_default map_add_def)

end
